theory Spec2Isabelle
  imports Main "HOL-Library.Word" "HOL-Library.Sublist"
begin

section \<open>The ABCI application of app/app.go\<close>

text \<open>
  A shallow embedding of \<^verbatim>\<open>EthermintApplication\<close> and of its methods \<^verbatim>\<open>Info\<close>,
  \<^verbatim>\<open>CheckTx\<close>, \<^verbatim>\<open>validateTx\<close>, \<^verbatim>\<open>DeliverTx\<close> and \<^verbatim>\<open>Commit\<close>.
  The application is glue over go-ethereum, cosmos-sdk, tendermint and the backend package of the
  repository, none of which is among the sources. Their functions and constants are taken as
  parameters (the record \<open>Externals\<close>); the account state is modelled from the data model of
  the specification. Calls to the logger change nothing and are left out.
\<close>

subsection \<open>Go values\<close>

type_synonym byte = "8 word"
type_synonym uint32 = "32 word"
type_synonym uint64 = "64 word"
type_synonym int64 = "64 word" \<comment> \<open>read with \<open>sint\<close>\<close>
type_synonym Address = "160 word" \<comment> \<open>\<^verbatim>\<open>common.Address\<close>, 20 bytes\<close>
type_synonym Hash = "byte list" \<comment> \<open>\<^verbatim>\<open>common.Hash\<close>, sliced with \<^verbatim>\<open>[:]\<close>\<close>

text \<open>A method either returns or panics; a panic aborts the process.\<close>

datatype 'a outcome = Panic string | Return 'a

text \<open>
  \<^verbatim>\<open>big.Int.Int64()\<close>: the low 64 bits of the integer, read as a signed number. Go documents
  the result as undefined when the integer does not fit; the implementation wraps.
\<close>

definition Int64 :: "int \<Rightarrow> int64" where
  "Int64 x = word_of_int x"

text \<open>
  \<^verbatim>\<open>fmt.Sprintf\<close> with \<^verbatim>\<open>%d\<close> on a \<^verbatim>\<open>uint64\<close> and with \<^verbatim>\<open>%s\<close> on a \<^verbatim>\<open>*big.Int\<close>:
  decimal digits, with a minus sign for a negative integer.
\<close>

fun decimal :: "nat \<Rightarrow> string" where
  "decimal n =
     (if n < 10 then [''0123456789'' ! n]
      else decimal (n div 10) @ [''0123456789'' ! (n mod 10)])"

declare decimal.simps [simp del]

definition fmt_d :: "uint64 \<Rightarrow> string" where
  "fmt_d n = decimal (unat n)"

definition fmt_s :: "int \<Rightarrow> string" where
  "fmt_s i = (if i < 0 then ''-'' @ decimal (nat (- i)) else decimal (nat i))"

subsection \<open>Transactions\<close>

text \<open>
  The getters of \<^verbatim>\<open>ethTypes.Transaction\<close> that \<^verbatim>\<open>validateTx\<close> reads, as fields. The gas limit
  and the nonce are \<^verbatim>\<open>uint64\<close>, the value and the gas price are \<^verbatim>\<open>*big.Int\<close>; \<^verbatim>\<open>To()\<close> is
  \<^verbatim>\<open>nil\<close> for a contract creation.
\<close>

record Transaction =
  Nonce :: uint64
  GasPrice :: int
  Gas :: uint64
  To :: "Address option"
  Value :: int
  Data :: "byte list"

text \<open>
  Modelled from the spec: \<^verbatim>\<open>tx.Cost()\<close> is go-ethereum's; the specification gives
  \<open>cost(T) = value + gasPrice \<times> gasLimit\<close>, and the comments of \<^verbatim>\<open>validateTx\<close> say
  \<^verbatim>\<open>cost == V + GP * GL\<close>.
\<close>

definition Cost :: "Transaction \<Rightarrow> int" where
  "Cost tx = Value tx + GasPrice tx * uint (Gas tx)"

datatype Signer = FrontierSigner | NewEIP155Signer int

subsection \<open>The account state\<close>

text \<open>
  Modelled from the spec: \<^verbatim>\<open>state.StateDB\<close> is go-ethereum's and not among the sources. The
  specification describes the execution state as a mapping from account address to balance and
  nonce (code and storage play no part here).
\<close>

record stateObject =
  nonce :: uint64
  balance :: int

type_synonym StateDB = "Address \<rightharpoonup> stateObject"

text \<open>Modelled from the spec: the existence test of the execution state.\<close>

definition Exist :: "StateDB \<Rightarrow> Address \<Rightarrow> bool" where
  "Exist st a = (st a \<noteq> None)"

text \<open>
  Modelled from the spec: the reads of nonce and balance. go-ethereum answers zero for an
  account that does not exist.
\<close>

definition GetNonce :: "StateDB \<Rightarrow> Address \<Rightarrow> uint64" where
  "GetNonce st a = (case st a of None \<Rightarrow> 0 | Some obj \<Rightarrow> nonce obj)"

definition GetBalance :: "StateDB \<Rightarrow> Address \<Rightarrow> int" where
  "GetBalance st a = (case st a of None \<Rightarrow> 0 | Some obj \<Rightarrow> balance obj)"

text \<open>
  Modelled from the spec: the writes of balance and nonce. go-ethereum creates the account, with
  nonce and balance zero, when it does not exist.
\<close>

definition GetOrNewStateObject :: "StateDB \<Rightarrow> Address \<Rightarrow> stateObject" where
  "GetOrNewStateObject st a =
     (case st a of None \<Rightarrow> \<lparr>nonce = 0, balance = 0\<rparr> | Some obj \<Rightarrow> obj)"

definition SubBalance :: "StateDB \<Rightarrow> Address \<Rightarrow> int \<Rightarrow> StateDB" where
  "SubBalance st a amount =
     (let obj = GetOrNewStateObject st a in st(a \<mapsto> obj\<lparr>balance := balance obj - amount\<rparr>))"

definition AddBalance :: "StateDB \<Rightarrow> Address \<Rightarrow> int \<Rightarrow> StateDB" where
  "AddBalance st a amount =
     (let obj = GetOrNewStateObject st a in st(a \<mapsto> obj\<lparr>balance := balance obj + amount\<rparr>))"

definition SetNonce :: "StateDB \<Rightarrow> Address \<Rightarrow> uint64 \<Rightarrow> StateDB" where
  "SetNonce st a n = (let obj = GetOrNewStateObject st a in st(a \<mapsto> obj\<lparr>nonce := n\<rparr>))"

text \<open>
  A \<^verbatim>\<open>*state.StateDB\<close> is a pointer. The objects it can point to are kept in a store, a
  pointer is an index into it, and an index past the end stands for \<^verbatim>\<open>nil\<close>.
\<close>

type_synonym ref = nat
type_synonym store = "StateDB list"

definition deref :: "store \<Rightarrow> ref \<Rightarrow> StateDB option" where
  "deref h r = (if r < length h then Some (h ! r) else None)"

text \<open>
  Modelled from the spec: the snapshot of the execution state, an owned copy. \<^verbatim>\<open>Copy\<close>
  allocates a new object with the contents of the old one.
\<close>

definition Copy :: "store \<Rightarrow> StateDB \<Rightarrow> ref \<times> store" where
  "Copy h st = (length h, h @ [st])"

subsection \<open>Requests and responses\<close>

record ResponseInfo =
  Info_Data :: string
  LastBlockHeight :: int64
  LastBlockAppHash :: "byte list"

record ResponseCheckTx =
  Code :: uint32
  Log :: string

record ResponseDeliverTx =
  DeliverTx_Code :: uint32
  DeliverTx_Log :: string

record ResponseCommit =
  Commit_Data :: "byte list"

record RequestBeginBlock =
  Proposer_Address :: "byte list"

record Block =
  Number :: int
  Block_Hash :: Hash
  Root :: Hash

text \<open>
  \<^verbatim>\<open>abciTypes.CodeTypeOK\<close>, which the specification gives as 0, and \<^verbatim>\<open>IsErr\<close> of a response:
  its code is not that one.
\<close>

definition CodeTypeOK :: uint32 where
  "CodeTypeOK = 0"

definition IsErr :: "ResponseDeliverTx \<Rightarrow> bool" where
  "IsErr res = (DeliverTx_Code res \<noteq> CodeTypeOK)"

subsection \<open>The application and what it calls\<close>

text \<open>
  The fields of \<^verbatim>\<open>EthermintApplication\<close> that the methods below read or write. The backend
  and the reward strategy are opaque. \<open>world\<close> adds the store that \<^verbatim>\<open>checkTxState\<close> points
  into.
\<close>

record ('b, 's) EthermintApplication =
  backend :: 'b
  checkTxState :: ref
  strategy :: 's
  requestBeginBlock :: "RequestBeginBlock option"

record ('b, 's) world =
  app :: "('b, 's) EthermintApplication"
  heap :: store

text \<open>
  Everything the methods call outside app/app.go, as parameters: the response codes of
  cosmos-sdk, the error texts of go-ethereum's \<^verbatim>\<open>core\<close> package, the transaction's size (a
  whole number, which go-ethereum holds in a \<^verbatim>\<open>float64\<close>), replay protection, chain id and
  signature recovery, the intrinsic gas, and the backend. An error is the text of its
  \<^verbatim>\<open>Error()\<close>. \<^verbatim>\<open>getCurrentState\<close> returns a pointer into the store, which it may have
  extended.

  \<^verbatim>\<open>decodeTx\<close>, \<^verbatim>\<open>Receiver\<close> and \<^verbatim>\<open>CollectTx\<close> belong to the repository but not to the
  sources, and are parameters as well. By the specification the codec is pure and fails on
  bytes that are not a transaction encoding, \<^verbatim>\<open>CollectTx\<close> records the transaction in the
  per-block tally, and \<^verbatim>\<open>Receiver\<close> is read from the reward strategy.
\<close>

record ('b, 's) Externals =
  CodeInternal :: uint32
  CodeUnknownRequest :: uint32
  CodeUnknownAddress :: uint32
  CodeOutOfGas :: uint32
  ErrOversizedData :: string
  ErrInvalidSender :: string
  ErrNegativeValue :: string
  ErrGasLimitReached :: string
  ErrIntrinsicGas :: string
  decodeTx :: "byte list \<Rightarrow> string + Transaction"
  Size :: "Transaction \<Rightarrow> nat"
  Protected :: "Transaction \<Rightarrow> bool"
  ChainId :: "Transaction \<Rightarrow> int"
  Sender :: "Signer \<Rightarrow> Transaction \<Rightarrow> string + Address"
  IntrinsicGas :: "byte list \<Rightarrow> bool \<Rightarrow> bool \<Rightarrow> string + uint64"
  GasLimit :: "'b \<Rightarrow> uint64"
  CurrentBlock :: "'b \<Rightarrow> Block"
  backend_DeliverTx :: "'b \<Rightarrow> Transaction \<Rightarrow> ResponseDeliverTx \<times> 'b"
  backend_Commit :: "'b \<Rightarrow> Address \<Rightarrow> (Hash \<times> string option) \<times> 'b"
  getCurrentState :: "'b \<Rightarrow> store \<Rightarrow> string + ref \<times> store"
  Receiver :: "'s \<Rightarrow> Address"
  CollectTx :: "'s \<Rightarrow> Transaction \<Rightarrow> 's"

definition maxTransactionSize :: nat where
  "maxTransactionSize = 32768"

subsection \<open>Info\<close>

definition Info :: "('b, 's) Externals \<Rightarrow> ('b, 's) world \<Rightarrow> ResponseInfo" where
  "Info E w =
     (let currentBlock = CurrentBlock E (backend (app w));
          height = Number currentBlock;
          hash = Block_Hash currentBlock
      in if height = 0
         then \<lparr>Info_Data = ''ABCIEthereum'', LastBlockHeight = Int64 height,
               LastBlockAppHash = []\<rparr>
         else \<lparr>Info_Data = ''ABCIEthereum'', LastBlockHeight = Int64 height,
               LastBlockAppHash = hash\<rparr>)"

subsection \<open>CheckTx and validateTx\<close>

definition validateTx ::
  "('b, 's) Externals \<Rightarrow> ('b, 's) world \<Rightarrow> Transaction \<Rightarrow> ResponseCheckTx outcome \<times> ('b, 's) world"
where
  "validateTx E w tx =
     (if Size E tx > maxTransactionSize
      then (Return \<lparr>Code = CodeInternal E, Log = ErrOversizedData E\<rparr>, w)
      else
        let signer = (if Protected E tx then NewEIP155Signer (ChainId E tx) else FrontierSigner)
        in case Sender E signer tx of
          Inl err \<Rightarrow> (Return \<lparr>Code = CodeInternal E, Log = ErrInvalidSender E\<rparr>, w)
        | Inr from \<Rightarrow>
            if Value tx < 0
            then (Return \<lparr>Code = CodeUnknownRequest E, Log = ErrNegativeValue E\<rparr>, w)
            else
              let currentState = checkTxState (app w)
              in (case deref (heap w) currentState of
                None \<Rightarrow> (Panic ''invalid memory address or nil pointer dereference'', w)
              | Some st \<Rightarrow>
                  if \<not> Exist st from
                  then (Return \<lparr>Code = CodeUnknownAddress E, Log = ErrInvalidSender E\<rparr>, w)
                  else
                    let gasLimit = GasLimit E (backend (app w))
                    in if gasLimit < Gas tx
                       then (Return \<lparr>Code = CodeOutOfGas E, Log = ErrGasLimitReached E\<rparr>, w)
                       else
                         let nonce = GetNonce st from
                         in if nonce \<noteq> Nonce tx
                            then (Return \<lparr>Code = CodeInternal E,
                                    Log = ''Nonce not strictly increasing. Expected '' @ fmt_d nonce
                                      @ '' Got '' @ fmt_d (Nonce tx)\<rparr>, w)
                            else
                              let currentBalance = GetBalance st from
                              in if currentBalance < Cost tx
                                 then (Return \<lparr>Code = CodeUnknownRequest E,
                                         Log = ''Current balance: '' @ fmt_s currentBalance
                                           @ '', tx cost: '' @ fmt_s (Cost tx)\<rparr>, w)
                                 else
                                   (case IntrinsicGas E (Data tx) (To tx = None) True of
                                     Inl err \<Rightarrow> (Panic ''Intrinsic gas failed!'', w)
                                   | Inr intrGas \<Rightarrow>
                                       if Gas tx < intrGas
                                       then (Return \<lparr>Code = CodeUnknownRequest E,
                                               Log = ErrIntrinsicGas E\<rparr>, w)
                                       else
                                         let st1 = SubBalance st from (Cost tx);
                                             st2 = (case To tx of None \<Rightarrow> st1
                                                    | Some to \<Rightarrow> AddBalance st1 to (Value tx));
                                             st3 = SetNonce st2 from (Nonce tx + 1)
                                         in (Return \<lparr>Code = CodeTypeOK, Log = []\<rparr>,
                                             w\<lparr>heap := (heap w)[currentState := st3]\<rparr>))))"

definition CheckTx ::
  "('b, 's) Externals \<Rightarrow> ('b, 's) world \<Rightarrow> byte list \<Rightarrow> ResponseCheckTx outcome \<times> ('b, 's) world"
where
  "CheckTx E w txBytes =
     (case decodeTx E txBytes of
        Inl err \<Rightarrow> (Return \<lparr>Code = CodeInternal E, Log = err\<rparr>, w)
      | Inr tx \<Rightarrow> validateTx E w tx)"

subsection \<open>DeliverTx\<close>

definition DeliverTx ::
  "('b, 's) Externals \<Rightarrow> ('b, 's) world \<Rightarrow> byte list \<Rightarrow> ResponseDeliverTx outcome \<times> ('b, 's) world"
where
  "DeliverTx E w txBytes =
     (case decodeTx E txBytes of
        Inl err \<Rightarrow> (Return \<lparr>DeliverTx_Code = CodeInternal E, DeliverTx_Log = err\<rparr>, w)
      | Inr tx \<Rightarrow>
          let (res, b) = backend_DeliverTx E (backend (app w)) tx;
              w1 = w\<lparr>app := (app w)\<lparr>backend := b\<rparr>\<rparr>
          in if IsErr res then (Return res, w1)
             else (Return \<lparr>DeliverTx_Code = CodeTypeOK, DeliverTx_Log = []\<rparr>,
                   w1\<lparr>app := (app w1)\<lparr>strategy := CollectTx E (strategy (app w1)) tx\<rparr>\<rparr>))"

subsection \<open>Commit\<close>

text \<open>The root hash of the new head block is read for the log only.\<close>

definition Commit ::
  "('b, 's) Externals \<Rightarrow> ('b, 's) world \<Rightarrow> ResponseCommit outcome \<times> ('b, 's) world"
where
  "Commit E w =
     (let ((blockHash, err), b) = backend_Commit E (backend (app w)) (Receiver E (strategy (app w)));
          w1 = w\<lparr>app := (app w)\<lparr>backend := b\<rparr>\<rparr>;
          rootHash = Root (CurrentBlock E b)
      in case err of
        Some e \<Rightarrow> (Panic ''Error getting latest ethereum state'', w1)
      | None \<Rightarrow>
          (case getCurrentState E b (heap w1) of
             Inl e \<Rightarrow> (Panic ''Error getting latest state'', w1)
           | Inr (state, h) \<Rightarrow>
               (case deref h state of
                  None \<Rightarrow> (Panic ''invalid memory address or nil pointer dereference'',
                            w1\<lparr>heap := h\<rparr>)
                | Some st \<Rightarrow>
                    let (r, h') = Copy h st
                    in (Return \<lparr>Commit_Data = blockHash\<rparr>,
                        \<lparr>app = (app w1)\<lparr>checkTxState := r, requestBeginBlock := None\<rparr>,
                         heap = h'\<rparr>))))"

subsection \<open>Shorthands for the statements\<close>

abbreviation signer_for :: "('b, 's) Externals \<Rightarrow> Transaction \<Rightarrow> Signer" where
  "signer_for E tx \<equiv>
     (if Protected E tx then NewEIP155Signer (ChainId E tx) else FrontierSigner)"

abbreviation Sm :: "('b, 's) world \<Rightarrow> StateDB option" where
  "Sm w \<equiv> deref (heap w) (checkTxState (app w))"

text \<open>The nonce and the balance of an account in the mempool state.\<close>

definition Sm_nonce :: "('b, 's) world \<Rightarrow> Address \<Rightarrow> uint64 option" where
  "Sm_nonce w a = map_option (\<lambda>st. GetNonce st a) (Sm w)"

definition Sm_balance :: "('b, 's) world \<Rightarrow> Address \<Rightarrow> int option" where
  "Sm_balance w a = map_option (\<lambda>st. GetBalance st a) (Sm w)"

text \<open>
  The three writes that end \<^verbatim>\<open>validateTx\<close>, in their order: the cost leaves the sender, the
  value reaches the recipient if there is one, the sender's nonce becomes the transaction's plus
  one (in \<^verbatim>\<open>uint64\<close>).
\<close>

definition admit :: "StateDB \<Rightarrow> Address \<Rightarrow> Transaction \<Rightarrow> StateDB" where
  "admit st sender tx =
     SetNonce
       (case To tx of
          None \<Rightarrow> SubBalance st sender (Cost tx)
        | Some to \<Rightarrow> AddBalance (SubBalance st sender (Cost tx)) to (Value tx))
       sender (Nonce tx + 1)"

text \<open>
  What the theorems assume of the constants of the libraries: a rejection code is not the code
  of success, and an error has a text.
\<close>

definition rejection_codes :: "('b, 's) Externals \<Rightarrow> bool" where
  "rejection_codes E =
     (CodeInternal E \<noteq> CodeTypeOK \<and> CodeUnknownRequest E \<noteq> CodeTypeOK \<and>
      CodeUnknownAddress E \<noteq> CodeTypeOK \<and> CodeOutOfGas E \<noteq> CodeTypeOK)"

definition error_texts :: "('b, 's) Externals \<Rightarrow> bool" where
  "error_texts E =
     (ErrOversizedData E \<noteq> [] \<and> ErrInvalidSender E \<noteq> [] \<and> ErrNegativeValue E \<noteq> [] \<and>
      ErrGasLimitReached E \<noteq> [] \<and> ErrIntrinsicGas E \<noteq> [])"

subsection \<open>A concrete instance of the collaborators\<close>

text \<open>
  The theorems hold for every instance of \<open>Externals\<close>. The examples run on this one: the
  codes are those of cosmos-sdk's table, the texts those of go-ethereum, the codec reads a table
  of known encodings and refuses everything else, every transaction is signed by \<open>who\<close>, a
  transaction has a hundred bytes around its payload, and the intrinsic gas follows the Homestead
  schedule. The backend is a chain head, a block gas limit, the pointer to its state, and the
  errors its next commit and its next state lookup give.
\<close>

record chain =
  chain_head :: Block
  block_gas_limit :: uint64
  chain_state :: ref
  commit_error :: "string option"
  state_error :: "string option"

definition next_block :: "Block \<Rightarrow> Block" where
  "next_block blk =
     \<lparr>Number = Number blk + 1, Block_Hash = [word_of_int (Number blk + 1), 1],
      Root = [word_of_int (Number blk + 1), 2]\<rparr>"

definition homestead_gas :: "byte list \<Rightarrow> bool \<Rightarrow> bool \<Rightarrow> string + uint64" where
  "homestead_gas payload contractCreation homestead =
     Inr ((if contractCreation \<and> homestead then 53000 else 21000)
          + 68 * of_nat (length (filter (\<lambda>b. b \<noteq> 0) payload))
          + 4 * of_nat (length (filter (\<lambda>b. b = 0) payload)))"

definition collaborators ::
  "(byte list \<times> Transaction) list \<Rightarrow> Address \<Rightarrow> (chain, Transaction list) Externals"
where
  "collaborators wire who =
     \<lparr>CodeInternal = 1, CodeUnknownRequest = 6, CodeUnknownAddress = 9, CodeOutOfGas = 12,
      ErrOversizedData = ''oversized data'',
      ErrInvalidSender = ''invalid sender'',
      ErrNegativeValue = ''negative value'',
      ErrGasLimitReached = ''gas limit reached'',
      ErrIntrinsicGas = ''intrinsic gas too low'',
      decodeTx = (\<lambda>bs. case map_of wire bs of
                    None \<Rightarrow> Inl ''rlp: expected input list for types.txdata''
                  | Some tx \<Rightarrow> Inr tx),
      Size = (\<lambda>tx. 100 + length (Data tx)),
      Protected = (\<lambda>tx. False),
      ChainId = (\<lambda>tx. 0),
      Sender = (\<lambda>signer tx. Inr who),
      IntrinsicGas = homestead_gas,
      GasLimit = block_gas_limit,
      CurrentBlock = chain_head,
      backend_DeliverTx = (\<lambda>b tx.
        if Gas tx < 21000
        then (\<lparr>DeliverTx_Code = 1, DeliverTx_Log = ''intrinsic gas too low''\<rparr>, b)
        else (\<lparr>DeliverTx_Code = 0, DeliverTx_Log = []\<rparr>, b)),
      backend_Commit = (\<lambda>b receiver.
        case commit_error b of
          Some e \<Rightarrow> (([], Some e), b)
        | None \<Rightarrow> ((Block_Hash (next_block (chain_head b)), None),
                    b\<lparr>chain_head := next_block (chain_head b)\<rparr>)),
      getCurrentState = (\<lambda>b h.
        case state_error b of Some e \<Rightarrow> Inl e | None \<Rightarrow> Inr (chain_state b, h)),
      Receiver = (\<lambda>s. 0),
      CollectTx = (\<lambda>s tx. tx # s)\<rparr>"

text \<open>
  Accounts \<open>A\<close> and \<open>B\<close>, the transfer of scenario 2 of the specification, the bytes that
  stand for it in the codec's table, and a world whose mempool state (object 1) is a copy of the
  committed state (object 0) in which \<open>A\<close> holds \<open>bal\<close> at nonce 5.
\<close>

definition A :: Address where
  "A = 10"

definition B :: Address where
  "B = 11"

definition transfer :: Transaction where
  "transfer = \<lparr>Nonce = 5, GasPrice = 1, Gas = 21000, To = Some B, Value = 100, Data = []\<rparr>"

definition transfer_bytes :: "byte list" where
  "transfer_bytes = [0xDD, 0x05, 0x01, 0x82, 0x52, 0x08, 0x94, 0x0B, 0x64, 0x80]"

definition genesis :: Block where
  "genesis = \<lparr>Number = 0, Block_Hash = [0, 1], Root = [0, 2]\<rparr>"

definition accounts :: "int \<Rightarrow> StateDB" where
  "accounts bal = [A \<mapsto> \<lparr>nonce = 5, balance = bal\<rparr>]"

definition chain0 :: chain where
  "chain0 = \<lparr>chain_head = genesis, block_gas_limit = 8000000, chain_state = 0,
             commit_error = None, state_error = None\<rparr>"

definition world_of :: "chain \<Rightarrow> int \<Rightarrow> (chain, Transaction list) world" where
  "world_of c bal =
     \<lparr>app = \<lparr>backend = c, checkTxState = 1, strategy = [],
             requestBeginBlock = Some \<lparr>Proposer_Address = [1]\<rparr>\<rparr>,
      heap = [accounts bal, accounts bal]\<rparr>"

text \<open>The collaborators when \<open>transfer_bytes\<close> decode to \<open>tx\<close> and \<open>A\<close> has signed.\<close>

definition decoding :: "Transaction \<Rightarrow> (chain, Transaction list) Externals" where
  "decoding tx = collaborators [(transfer_bytes, tx)] A"

section \<open>Info\<close>

text \<open>
  C6 (as amended). At height 0 \<^verbatim>\<open>Info\<close> answers height 0 and an empty application hash. At
  every height above 0 the application hash is the hash of the current head block, and for a
  height below \<open>2 ^ 63\<close> the response carries that height. The field is an \<^verbatim>\<open>int64\<close>, filled
  by \<^verbatim>\<open>height.Int64()\<close>.
\<close>

theorem Info_sentinel:
  "(Number (CurrentBlock E (backend (app w))) = 0 \<longrightarrow>
      Info E w = \<lparr>Info_Data = ''ABCIEthereum'', LastBlockHeight = 0, LastBlockAppHash = []\<rparr>) \<and>
   (0 < Number (CurrentBlock E (backend (app w))) \<longrightarrow>
      LastBlockAppHash (Info E w) = Block_Hash (CurrentBlock E (backend (app w)))) \<and>
   (0 < Number (CurrentBlock E (backend (app w))) \<and>
    Number (CurrentBlock E (backend (app w))) < 2 ^ 63 \<longrightarrow>
      sint (LastBlockHeight (Info E w)) = Number (CurrentBlock E (backend (app w))))"
proof -
  have "sint (word_of_int h :: 64 word) = h" if "0 < h" "h < 2 ^ 63" for h :: int
    using that by (simp add: sint_sbintrunc' signed_take_bit_int_eq_self)
  then show ?thesis
    by (simp add: Info_def Int64_def Let_def)
qed

text \<open>The fresh chain, and the chain after its first block.\<close>

theorem Info_sentinel_witness:
  "Info (collaborators [] A) (world_of chain0 0) =
     \<lparr>Info_Data = ''ABCIEthereum'', LastBlockHeight = 0, LastBlockAppHash = []\<rparr> \<and>
   LastBlockAppHash
     (Info (collaborators [] A) (world_of (chain0\<lparr>chain_head := next_block genesis\<rparr>) 0)) = [1, 1] \<and>
   sint (LastBlockHeight
     (Info (collaborators [] A) (world_of (chain0\<lparr>chain_head := next_block genesis\<rparr>) 0))) = 1"
  using Info_sentinel [of "collaborators [] A" "world_of chain0 0"]
    Info_sentinel [of "collaborators [] A" "world_of (chain0\<lparr>chain_head := next_block genesis\<rparr>) 0"]
  by (simp add: collaborators_def world_of_def chain0_def genesis_def next_block_def)

text \<open>
  The claim as stated promises the height itself at every height above 0. A head block numbered
  \<open>2 ^ 63\<close> is answered with the height \<open>- 2 ^ 63\<close>.
\<close>

theorem Info_height_counterexample:
  "Number (CurrentBlock (collaborators [] A)
      (backend (app (world_of
        (chain0\<lparr>chain_head := \<lparr>Number = 2 ^ 63, Block_Hash = [1], Root = [2]\<rparr>\<rparr>) 0))))
     = 9223372036854775808 \<and>
   sint (LastBlockHeight (Info (collaborators [] A)
      (world_of (chain0\<lparr>chain_head := \<lparr>Number = 2 ^ 63, Block_Hash = [1], Root = [2]\<rparr>\<rparr>) 0)))
     = - 9223372036854775808"
  by (simp add: Info_def Int64_def collaborators_def world_of_def chain0_def)

section \<open>Commit\<close>

text \<open>
  C8. When the backend's commit returns an error, \<^verbatim>\<open>Commit\<close> panics; when the commit succeeds
  and the current state cannot be obtained, \<^verbatim>\<open>Commit\<close> panics. In neither case does it return
  a response.
\<close>

theorem Commit_aborts:
  "(backend_Commit E (backend (app w)) (Receiver E (strategy (app w))) = ((blockHash, Some e), b) \<longrightarrow>
      fst (Commit E w) = Panic ''Error getting latest ethereum state'') \<and>
   (backend_Commit E (backend (app w)) (Receiver E (strategy (app w))) = ((blockHash, None), b) \<and>
    getCurrentState E b (heap w) = Inl e \<longrightarrow>
      fst (Commit E w) = Panic ''Error getting latest state'')"
  by (simp add: Commit_def)

theorem Commit_aborts_witness:
  "fst (Commit (collaborators [] A) (world_of (chain0\<lparr>commit_error := Some ''database closed''\<rparr>) 0))
     = Panic ''Error getting latest ethereum state'' \<and>
   fst (Commit (collaborators [] A) (world_of (chain0\<lparr>state_error := Some ''missing trie node''\<rparr>) 0))
     = Panic ''Error getting latest state''"
  using Commit_aborts [of "collaborators [] A"
      "world_of (chain0\<lparr>commit_error := Some ''database closed''\<rparr>) 0"
      "[]" "''database closed''" "chain0\<lparr>commit_error := Some ''database closed''\<rparr>"]
    Commit_aborts [of "collaborators [] A"
      "world_of (chain0\<lparr>state_error := Some ''missing trie node''\<rparr>) 0"
      "[1, 1]" "''missing trie node''"
      "chain0\<lparr>state_error := Some ''missing trie node'', chain_head := next_block genesis\<rparr>"]
  by (simp add: collaborators_def world_of_def chain0_def genesis_def next_block_def)

section \<open>CheckTx\<close>

subsection \<open>Reads after writes\<close>

lemma GetBalance_SubBalance:
  "GetBalance (SubBalance st a v) x = (if x = a then GetBalance st a - v else GetBalance st x)"
  by (simp add: GetBalance_def SubBalance_def GetOrNewStateObject_def Let_def split: option.split)

lemma GetBalance_AddBalance:
  "GetBalance (AddBalance st a v) x = (if x = a then GetBalance st a + v else GetBalance st x)"
  by (simp add: GetBalance_def AddBalance_def GetOrNewStateObject_def Let_def split: option.split)

lemma GetBalance_SetNonce: "GetBalance (SetNonce st a n) x = GetBalance st x"
  by (simp add: GetBalance_def SetNonce_def GetOrNewStateObject_def Let_def split: option.split)

lemma GetNonce_SubBalance: "GetNonce (SubBalance st a v) x = GetNonce st x"
  by (simp add: GetNonce_def SubBalance_def GetOrNewStateObject_def Let_def split: option.split)

lemma GetNonce_AddBalance: "GetNonce (AddBalance st a v) x = GetNonce st x"
  by (simp add: GetNonce_def AddBalance_def GetOrNewStateObject_def Let_def split: option.split)

lemma GetNonce_SetNonce:
  "GetNonce (SetNonce st a n) x = (if x = a then n else GetNonce st x)"
  by (simp add: GetNonce_def SetNonce_def GetOrNewStateObject_def Let_def split: option.split)

lemma GetNonce_admit: "GetNonce (admit st sender tx) sender = Nonce tx + 1"
  by (simp add: admit_def GetNonce_SetNonce)

lemma GetBalance_admit:
  "GetBalance (admit st sender tx) x =
     (case To tx of
        None \<Rightarrow> if x = sender then GetBalance st sender - Cost tx else GetBalance st x
      | Some to \<Rightarrow>
          if x = to \<and> x = sender then GetBalance st sender - Cost tx + Value tx
          else if x = to then GetBalance st x + Value tx
          else if x = sender then GetBalance st sender - Cost tx
          else GetBalance st x)"
  by (simp add: admit_def GetBalance_SetNonce GetBalance_AddBalance GetBalance_SubBalance
      split: option.split)

text \<open>What a call of \<^verbatim>\<open>validateTx\<close> that returns has done.\<close>

lemma validateTx_rejects:
  assumes "validateTx E w tx = (Return r, w')" and "r \<noteq> \<lparr>Code = CodeTypeOK, Log = []\<rparr>"
  shows "w' = w"
  using assms
  by (auto simp add: validateTx_def Let_def split: if_splits sum.splits option.splits)

lemma validateTx_admits:
  assumes "validateTx E w tx = (Return r, w')" and "Code r = CodeTypeOK"
    and "rejection_codes E"
  shows "\<exists>sender st g. Sender E (signer_for E tx) tx = Inr sender \<and> Sm w = Some st \<and>
           Size E tx \<le> maxTransactionSize \<and> 0 \<le> Value tx \<and> Exist st sender \<and>
           Gas tx \<le> GasLimit E (backend (app w)) \<and> GetNonce st sender = Nonce tx \<and>
           Cost tx \<le> GetBalance st sender \<and>
           IntrinsicGas E (Data tx) (To tx = None) True = Inr g \<and> g \<le> Gas tx \<and>
           w' = w\<lparr>heap := (heap w)[checkTxState (app w) := admit st sender tx]\<rparr>"
  using assms
  by (auto simp add: validateTx_def rejection_codes_def admit_def Let_def
      split: if_splits sum.splits option.splits)

lemma CheckTx_decoded: "decodeTx E bs = Inr tx \<Longrightarrow> CheckTx E w bs = validateTx E w tx"
  by (simp add: CheckTx_def)

lemma CheckTx_malformed:
  "decodeTx E bs = Inl de \<Longrightarrow> CheckTx E w bs = (Return \<lparr>Code = CodeInternal E, Log = de\<rparr>, w)"
  by (simp add: CheckTx_def)

subsection \<open>Running the examples\<close>

lemmas on_examples = CheckTx_def validateTx_def decoding_def collaborators_def world_of_def chain0_def
  accounts_def transfer_def transfer_bytes_def A_def B_def maxTransactionSize_def homestead_gas_def
  Exist_def GetNonce_def GetBalance_def Cost_def deref_def fmt_d_def fmt_s_def decimal.simps
  CodeTypeOK_def SubBalance_def AddBalance_def SetNonce_def GetOrNewStateObject_def Let_def
  Sm_nonce_def Sm_balance_def rejection_codes_def error_texts_def

subsection \<open>What an admission does to the mempool state\<close>

text \<open>
  C3 (as amended). Let \<^verbatim>\<open>CheckTx\<close> admit the transaction \<open>tx\<close> of sender \<open>sender\<close>, the
  mempool state being \<open>st\<close> before. Then the nonce of \<open>tx\<close> is the sender's nonce in \<open>st\<close>,
  and afterwards the sender's nonce is that nonce plus one (in \<^verbatim>\<open>uint64\<close>). The cost, value plus
  gas price times gas limit, is taken from the sender and the value is then given to the
  recipient: a recipient other than the sender holds the value more, a sender who is not the
  recipient holds the cost less, and a sender who is the recipient holds the cost less and the
  value more.
\<close>

theorem admission_effect:
  assumes "rejection_codes E"
    and "CheckTx E w bs = (Return r, w')" and "Code r = CodeTypeOK"
    and "decodeTx E bs = Inr tx" and "Sender E (signer_for E tx) tx = Inr sender"
    and "Sm w = Some st"
  shows "Nonce tx = GetNonce st sender \<and>
         Sm_nonce w' sender = Some (Nonce tx + 1) \<and>
         Sm_balance w' sender =
           Some (if To tx = Some sender then GetBalance st sender - Cost tx + Value tx
                 else GetBalance st sender - Cost tx) \<and>
         (\<forall>to. To tx = Some to \<and> to \<noteq> sender \<longrightarrow>
            Sm_balance w' to = Some (GetBalance st to + Value tx)) \<and>
         Cost tx = Value tx + GasPrice tx * uint (Gas tx)"
proof -
  from assms(2,4) have v: "validateTx E w tx = (Return r, w')"
    by (simp add: CheckTx_decoded)
  from validateTx_admits [OF v assms(3) assms(1)] assms(5,6)
  have n: "GetNonce st sender = Nonce tx"
    and w': "w' = w\<lparr>heap := (heap w)[checkTxState (app w) := admit st sender tx]\<rparr>"
    by auto
  from assms(6) have r: "checkTxState (app w) < length (heap w)"
    by (simp add: deref_def split: if_splits)
  from w' r have sm: "Sm w' = Some (admit st sender tx)"
    by (simp add: deref_def)
  show ?thesis
    using n sm
    by (auto simp add: Sm_nonce_def Sm_balance_def GetNonce_admit GetBalance_admit Cost_def
        split: option.split)
qed

text \<open>The transfer of scenario 2 from \<open>A\<close>, who holds 21979, to \<open>B\<close>.\<close>

theorem admission_effect_witness:
  "Sm_nonce (snd (CheckTx (decoding transfer) (world_of chain0 21979) transfer_bytes)) A = Some 6 \<and>
   Sm_balance (snd (CheckTx (decoding transfer) (world_of chain0 21979) transfer_bytes)) A = Some 879 \<and>
   Sm_balance (snd (CheckTx (decoding transfer) (world_of chain0 21979) transfer_bytes)) B = Some 100 \<and>
   Cost transfer = 21100"
  using admission_effect [of "decoding transfer" "world_of chain0 21979" transfer_bytes
      "\<lparr>Code = 0, Log = []\<rparr>" "snd (CheckTx (decoding transfer) (world_of chain0 21979) transfer_bytes)"
      transfer A "accounts 21979"]
  by (simp add: on_examples)

text \<open>
  The claim as stated has the sender's balance fall by the cost in every admission. \<open>A\<close>, holding
  1000000, sends 100 to \<open>A\<close> at the cost 21100 and holds 979000 afterwards, not 978900.
\<close>

theorem admission_counterexample:
  "fst (CheckTx (decoding (transfer\<lparr>To := Some A\<rparr>)) (world_of chain0 1000000) transfer_bytes) =
     Return \<lparr>Code = 0, Log = []\<rparr> \<and>
   Cost (transfer\<lparr>To := Some A\<rparr>) = 21100 \<and>
   Sm_balance (world_of chain0 1000000) A = Some 1000000 \<and>
   Sm_balance (snd (CheckTx (decoding (transfer\<lparr>To := Some A\<rparr>)) (world_of chain0 1000000)
     transfer_bytes)) A = Some 979000"
  by (simp add: on_examples)

subsection \<open>Scenario 2 of the specification\<close>

text \<open>
  C2 (as amended). \<open>A\<close> has nonce 5 and the balance \<open>bal\<close> in the mempool state, and submits
  the transfer of 100 to \<open>B\<close> with gas 21000, gas price 1 and nonce 5, which costs 21100. With a
  balance below 21100, the 1000 of the scenario among them, \<^verbatim>\<open>CheckTx\<close> rejects for insufficient
  funds and changes nothing. With a balance of at least 21100 it answers OK, and afterwards the
  nonce of \<open>A\<close> is 6 and the balance of \<open>A\<close> is \<open>bal - 21100\<close>, which is 879 for a balance of
  21979.
\<close>

theorem good_transaction:
  assumes "decodeTx E bs = Inr tx"
    and "tx = \<lparr>Nonce = 5, GasPrice = 1, Gas = 21000, To = Some b, Value = 100, Data = []\<rparr>"
    and "Size E tx \<le> maxTransactionSize"
    and "Sender E (signer_for E tx) tx = Inr a" and "a \<noteq> b"
    and "Sm w = Some st" and "st a = Some \<lparr>nonce = 5, balance = bal\<rparr>"
    and "21000 \<le> GasLimit E (backend (app w))"
    and "IntrinsicGas E [] False True = Inr 21000"
  shows "Cost tx = 21100 \<and>
         (bal < 21100 \<longrightarrow>
            CheckTx E w bs =
              (Return \<lparr>Code = CodeUnknownRequest E,
                 Log = ''Current balance: '' @ fmt_s bal @ '', tx cost: 21100''\<rparr>, w)) \<and>
         (21100 \<le> bal \<longrightarrow>
            fst (CheckTx E w bs) = Return \<lparr>Code = CodeTypeOK, Log = []\<rparr> \<and>
            Sm_nonce (snd (CheckTx E w bs)) a = Some 6 \<and>
            Sm_balance (snd (CheckTx E w bs)) a = Some (bal - 21100))"
proof -
  have c: "Cost tx = 21100"
    by (simp add: assms(2) Cost_def)
  have s: "fmt_s 21100 = ''21100''"
    by (simp add: fmt_s_def decimal.simps)
  have r: "checkTxState (app w) < length (heap w)" and h: "heap w ! checkTxState (app w) = st"
    using assms(6) by (simp_all add: deref_def split: if_splits)
  have g: "\<not> GasLimit E (backend (app w)) < Gas tx" "\<not> Gas tx < 21000"
    using assms(8) by (simp_all add: assms(2) not_less)
  have n: "GetNonce st a = Nonce tx" "GetBalance st a = bal" "Exist st a" "To tx = Some b"
    "\<not> Value tx < 0" "Data tx = []"
    by (simp_all add: assms(2,7) GetNonce_def GetBalance_def Exist_def)
  have v: "validateTx E w tx =
      (if bal < 21100
       then (Return \<lparr>Code = CodeUnknownRequest E,
               Log = ''Current balance: '' @ fmt_s bal @ '', tx cost: 21100''\<rparr>, w)
       else (Return \<lparr>Code = CodeTypeOK, Log = []\<rparr>,
             w\<lparr>heap := (heap w)[checkTxState (app w) := admit st a tx]\<rparr>))"
    using assms(3,4,6,9) g n c s
    by (simp add: validateTx_def Let_def admit_def del: append.simps)
  have "Sm (w\<lparr>heap := (heap w)[checkTxState (app w) := admit st a tx]\<rparr>) = Some (admit st a tx)"
    using r by (simp add: deref_def)
  then show ?thesis
    using v c n assms(1,5)
    by (simp add: CheckTx_decoded Sm_nonce_def Sm_balance_def GetNonce_admit GetBalance_admit
        assms(2) not_less)
qed

theorem good_transaction_witness:
  "CheckTx (decoding transfer) (world_of chain0 1000) transfer_bytes =
     (Return \<lparr>Code = 6, Log = ''Current balance: 1000, tx cost: 21100''\<rparr>, world_of chain0 1000) \<and>
   Sm_nonce (world_of chain0 1000) A = Some 5 \<and>
   Sm_balance (world_of chain0 1000) A = Some 1000 \<and>
   fst (CheckTx (decoding transfer) (world_of chain0 21979) transfer_bytes) =
     Return \<lparr>Code = 0, Log = []\<rparr> \<and>
   Sm_nonce (snd (CheckTx (decoding transfer) (world_of chain0 21979) transfer_bytes)) A = Some 6 \<and>
   Sm_balance (snd (CheckTx (decoding transfer) (world_of chain0 21979) transfer_bytes)) A = Some 879"
  using good_transaction [of "decoding transfer" transfer_bytes transfer B A "world_of chain0 1000"
      "accounts 1000" 1000]
    good_transaction [of "decoding transfer" transfer_bytes transfer B A "world_of chain0 21979"
      "accounts 21979" 21979]
  by (simp add: on_examples)

text \<open>
  The scenario as written: with the balance 1000 the answer is not OK, and the nonce and the
  balance of \<open>A\<close> stay 5 and 1000.
\<close>

theorem good_transaction_counterexample:
  "transfer = \<lparr>Nonce = 5, GasPrice = 1, Gas = 21000, To = Some B, Value = 100, Data = []\<rparr> \<and>
   decodeTx (decoding transfer) transfer_bytes = Inr transfer \<and>
   Sender (decoding transfer) FrontierSigner transfer = Inr A \<and>
   Sm_nonce (world_of chain0 1000) A = Some 5 \<and>
   Sm_balance (world_of chain0 1000) A = Some 1000 \<and>
   CheckTx (decoding transfer) (world_of chain0 1000) transfer_bytes =
     (Return \<lparr>Code = 6, Log = ''Current balance: 1000, tx cost: 21100''\<rparr>, world_of chain0 1000) \<and>
   CodeTypeOK = 0"
  by (simp add: on_examples)

subsection \<open>Rejections\<close>

lemma CheckTx_rejects:
  assumes "CheckTx E w bs = (Return r, w')" and "Code r \<noteq> CodeTypeOK"
  shows "w' = w"
proof (cases "decodeTx E bs")
  case (Inl de)
  with assms(1) show ?thesis
    by (simp add: CheckTx_malformed)
next
  case (Inr tx)
  with assms(1) have "validateTx E w tx = (Return r, w')"
    by (simp add: CheckTx_decoded)
  moreover from assms(2) have "r \<noteq> \<lparr>Code = CodeTypeOK, Log = []\<rparr>"
    by auto
  ultimately show ?thesis
    by (rule validateTx_rejects)
qed

lemma validateTx_bad_nonce:
  assumes "Size E tx \<le> maxTransactionSize" and "Sender E (signer_for E tx) tx = Inr sender"
    and "0 \<le> Value tx" and "Sm w = Some st" and "Exist st sender"
    and "Gas tx \<le> GasLimit E (backend (app w))" and "GetNonce st sender \<noteq> Nonce tx"
  shows "validateTx E w tx =
           (Return \<lparr>Code = CodeInternal E,
              Log = ''Nonce not strictly increasing. Expected '' @ fmt_d (GetNonce st sender)
                @ '' Got '' @ fmt_d (Nonce tx)\<rparr>, w)"
  using assms by (simp add: validateTx_def Let_def del: append.simps) (simp add: not_less [symmetric])

text \<open>
  C4. A call of \<^verbatim>\<open>CheckTx\<close> that returns a code other than OK leaves the whole world, the
  mempool state in it, as it was. When the sender's nonce in the mempool state is 5 and the
  transaction's is 7, and the checks before the nonce check pass, the response has the code
  \<^verbatim>\<open>Internal\<close> and the log "Nonce not strictly increasing. Expected 5 Got 7", which contains
  "Expected 5 Got 7".
\<close>

theorem rejection_leaves_state:
  "(CheckTx E w bs = (Return r, w') \<and> Code r \<noteq> CodeTypeOK \<longrightarrow> w' = w) \<and>
   (decodeTx E bs = Inr tx \<and> Size E tx \<le> maxTransactionSize \<and>
    Sender E (signer_for E tx) tx = Inr sender \<and> 0 \<le> Value tx \<and> Sm w = Some st \<and>
    Exist st sender \<and> Gas tx \<le> GasLimit E (backend (app w)) \<and>
    GetNonce st sender = 5 \<and> Nonce tx = 7 \<longrightarrow>
      CheckTx E w bs =
        (Return \<lparr>Code = CodeInternal E,
           Log = ''Nonce not strictly increasing. Expected 5 Got 7''\<rparr>, w) \<and>
      sublist ''Expected 5 Got 7'' (case fst (CheckTx E w bs) of Return x \<Rightarrow> Log x | Panic m \<Rightarrow> []))"
proof -
  have d: "fmt_d 5 = ''5''" "fmt_d 7 = ''7''"
    by (simp_all add: fmt_d_def decimal.simps)
  have s: "sublist ''Expected 5 Got 7'' (''Nonce not strictly increasing. '' @ ''Expected 5 Got 7'' @ [])"
    by (rule sublist_appendI)
  have "CheckTx E w bs =
        (Return \<lparr>Code = CodeInternal E,
           Log = ''Nonce not strictly increasing. Expected 5 Got 7''\<rparr>, w)"
    if "decodeTx E bs = Inr tx" "Size E tx \<le> maxTransactionSize"
      "Sender E (signer_for E tx) tx = Inr sender" "0 \<le> Value tx" "Sm w = Some st"
      "Exist st sender" "Gas tx \<le> GasLimit E (backend (app w))"
      "GetNonce st sender = 5" "Nonce tx = 7"
  proof -
    have "GetNonce st sender \<noteq> Nonce tx"
      using that(8,9) by simp
    from validateTx_bad_nonce [OF that(2-7) this] that(1,8,9) d show ?thesis
      by (simp add: CheckTx_decoded)
  qed
  note n = this
  have 1: "CheckTx E w bs = (Return r, w') \<and> Code r \<noteq> CodeTypeOK \<longrightarrow> w' = w"
    using CheckTx_rejects by blast
  have 2: "sublist ''Expected 5 Got 7''
      (case fst (CheckTx E w bs) of Return x \<Rightarrow> Log x | Panic m \<Rightarrow> [])"
    if "CheckTx E w bs =
        (Return \<lparr>Code = CodeInternal E,
           Log = ''Nonce not strictly increasing. Expected 5 Got 7''\<rparr>, w)"
    using s by (simp only: that fst_conv outcome.case ResponseCheckTx.select_convs) simp
  from 1 n 2 show ?thesis
    by blast
qed

theorem rejection_leaves_state_witness:
  "CheckTx (decoding (transfer\<lparr>Nonce := 7\<rparr>)) (world_of chain0 21979) transfer_bytes =
     (Return \<lparr>Code = 1, Log = ''Nonce not strictly increasing. Expected 5 Got 7''\<rparr>,
      world_of chain0 21979) \<and>
   sublist ''Expected 5 Got 7'' ''Nonce not strictly increasing. Expected 5 Got 7'' \<and>
   Code \<lparr>Code = 1, Log = ''Nonce not strictly increasing. Expected 5 Got 7''\<rparr> \<noteq> CodeTypeOK \<and>
   snd (CheckTx (decoding (transfer\<lparr>Nonce := 7\<rparr>)) (world_of chain0 21979) transfer_bytes) =
     world_of chain0 21979"
proof -
  have h: "decodeTx (decoding (transfer\<lparr>Nonce := 7\<rparr>)) transfer_bytes = Inr (transfer\<lparr>Nonce := 7\<rparr>) \<and>
    Size (decoding (transfer\<lparr>Nonce := 7\<rparr>)) (transfer\<lparr>Nonce := 7\<rparr>) \<le> maxTransactionSize \<and>
    Sender (decoding (transfer\<lparr>Nonce := 7\<rparr>))
      (signer_for (decoding (transfer\<lparr>Nonce := 7\<rparr>)) (transfer\<lparr>Nonce := 7\<rparr>))
      (transfer\<lparr>Nonce := 7\<rparr>) = Inr A \<and>
    0 \<le> Value (transfer\<lparr>Nonce := 7\<rparr>) \<and>
    Sm (world_of chain0 21979) = Some (accounts 21979) \<and>
    Exist (accounts 21979) A \<and>
    Gas (transfer\<lparr>Nonce := 7\<rparr>) \<le> GasLimit (decoding (transfer\<lparr>Nonce := 7\<rparr>))
      (backend (app (world_of chain0 21979))) \<and>
    GetNonce (accounts 21979) A = 5 \<and> Nonce (transfer\<lparr>Nonce := 7\<rparr>) = 7"
    by (simp add: decoding_def collaborators_def world_of_def chain0_def accounts_def transfer_def
        maxTransactionSize_def Exist_def GetNonce_def deref_def)
  note t = rejection_leaves_state [of "decoding (transfer\<lparr>Nonce := 7\<rparr>)" "world_of chain0 21979"
      transfer_bytes "\<lparr>Code = 1, Log = ''Nonce not strictly increasing. Expected 5 Got 7''\<rparr>"
      "snd (CheckTx (decoding (transfer\<lparr>Nonce := 7\<rparr>)) (world_of chain0 21979) transfer_bytes)"
      "transfer\<lparr>Nonce := 7\<rparr>" A "accounts 21979"]
  note t2 = t [THEN conjunct2, THEN mp, OF h]
  have c: "CodeInternal (decoding (transfer\<lparr>Nonce := 7\<rparr>)) = 1"
    by (simp add: decoding_def collaborators_def)
  from t2 [THEN conjunct1] c
  have e: "CheckTx (decoding (transfer\<lparr>Nonce := 7\<rparr>)) (world_of chain0 21979) transfer_bytes =
     (Return \<lparr>Code = 1, Log = ''Nonce not strictly increasing. Expected 5 Got 7''\<rparr>,
      world_of chain0 21979)"
    by simp
  from t2 [THEN conjunct2]
  have s: "sublist ''Expected 5 Got 7'' ''Nonce not strictly increasing. Expected 5 Got 7''"
    by (simp only: e fst_conv outcome.case ResponseCheckTx.select_convs)
  have n: "Code \<lparr>Code = 1, Log = ''Nonce not strictly increasing. Expected 5 Got 7''\<rparr> \<noteq> CodeTypeOK"
    by (simp add: CodeTypeOK_def)
  have "CheckTx (decoding (transfer\<lparr>Nonce := 7\<rparr>)) (world_of chain0 21979) transfer_bytes =
     (Return \<lparr>Code = 1, Log = ''Nonce not strictly increasing. Expected 5 Got 7''\<rparr>,
      snd (CheckTx (decoding (transfer\<lparr>Nonce := 7\<rparr>)) (world_of chain0 21979) transfer_bytes))"
    by (simp only: e snd_conv)
  with n t [THEN conjunct1]
  have "snd (CheckTx (decoding (transfer\<lparr>Nonce := 7\<rparr>)) (world_of chain0 21979) transfer_bytes) =
     world_of chain0 21979"
    by blast
  with e s n show ?thesis
    by blast
qed

subsection \<open>Balances stay non-negative\<close>

lemma admit_nonnegative:
  assumes "\<forall>a. 0 \<le> GetBalance st a" and "Cost tx \<le> GetBalance st sender" and "0 \<le> Value tx"
  shows "0 \<le> GetBalance (admit st sender tx) x"
  using assms(2,3) assms(1) [rule_format, of x] assms(1) [rule_format, of sender]
  by (simp add: GetBalance_admit split: option.split)

lemma validateTx_writes:
  assumes "validateTx E w tx = (out, w')" and "w' \<noteq> w"
  obtains sender st where "Sender E (signer_for E tx) tx = Inr sender" and "Sm w = Some st"
    and "Cost tx \<le> GetBalance st sender" and "0 \<le> Value tx"
    and "w' = w\<lparr>heap := (heap w)[checkTxState (app w) := admit st sender tx]\<rparr>"
proof (cases "Sender E (signer_for E tx) tx")
  case (Inl err)
  with assms show ?thesis
    by (simp add: validateTx_def Let_def split: if_splits)
next
  case (Inr sender)
  show ?thesis
  proof (cases "Sm w")
    case None
    with Inr assms show ?thesis
      by (simp add: validateTx_def Let_def split: if_splits)
  next
    case (Some st)
    with Inr assms have "Cost tx \<le> GetBalance st sender \<and> 0 \<le> Value tx \<and>
        w' = w\<lparr>heap := (heap w)[checkTxState (app w) := admit st sender tx]\<rparr>"
      by (simp add: validateTx_def admit_def Let_def not_less split: if_splits sum.splits)
    with Inr Some that show ?thesis
      by blast
  qed
qed

text \<open>
  C10. If no account of the mempool state has a negative balance before a call of \<^verbatim>\<open>CheckTx\<close>,
  none has one after it, whatever the call answers.
\<close>

theorem CheckTx_keeps_balances_nonnegative:
  assumes "Sm w = Some st" and "\<forall>a. 0 \<le> GetBalance st a"
    and "CheckTx E w bs = (out, w')"
  shows "\<exists>st'. Sm w' = Some st' \<and> (\<forall>a. 0 \<le> GetBalance st' a)"
proof (cases "w' = w")
  case True
  with assms(1,2) show ?thesis
    by simp
next
  case False
  from assms(1) have r: "checkTxState (app w) < length (heap w)"
    by (simp add: deref_def split: if_splits)
  from False assms(3) obtain tx where d: "decodeTx E bs = Inr tx"
    by (cases "decodeTx E bs") (auto simp add: CheckTx_def)
  with assms(3) have v: "validateTx E w tx = (out, w')"
    by (simp add: CheckTx_decoded)
  from v False obtain sender st0 where s: "Sm w = Some st0"
    and c: "Cost tx \<le> GetBalance st0 sender" "0 \<le> Value tx"
    and w': "w' = w\<lparr>heap := (heap w)[checkTxState (app w) := admit st0 sender tx]\<rparr>"
    by (rule validateTx_writes)
  from s assms(1) have st0: "st0 = st"
    by simp
  from w' r have "Sm w' = Some (admit st sender tx)"
    by (simp add: deref_def st0)
  with admit_nonnegative [OF assms(2) c [unfolded st0]] show ?thesis
    by simp
qed

theorem CheckTx_keeps_balances_nonnegative_witness:
  "Sm (world_of chain0 21979) = Some (accounts 21979) \<and>
   (\<forall>a. 0 \<le> GetBalance (accounts 21979) a) \<and>
   (\<exists>st'. Sm (snd (CheckTx (decoding transfer) (world_of chain0 21979) transfer_bytes)) = Some st' \<and>
          (\<forall>a. 0 \<le> GetBalance st' a)) \<and>
   Sm_balance (snd (CheckTx (decoding transfer) (world_of chain0 21979) transfer_bytes)) A = Some 879"
proof -
  have 1: "Sm (world_of chain0 21979) = Some (accounts 21979)"
    by (simp add: world_of_def deref_def)
  have 2: "\<forall>a. 0 \<le> GetBalance (accounts 21979) a"
    by (simp add: accounts_def GetBalance_def)
  have 3: "CheckTx (decoding transfer) (world_of chain0 21979) transfer_bytes =
      (fst (CheckTx (decoding transfer) (world_of chain0 21979) transfer_bytes),
       snd (CheckTx (decoding transfer) (world_of chain0 21979) transfer_bytes))"
    by simp
  have 4: "Sm_balance (snd (CheckTx (decoding transfer) (world_of chain0 21979) transfer_bytes)) A
      = Some 879"
    by (simp add: on_examples)
  from CheckTx_keeps_balances_nonnegative [OF 1 2 3] 1 2 4 show ?thesis
    by blast
qed

subsection \<open>The order of the checks\<close>

text \<open>
  C1 (as amended). \<^verbatim>\<open>CheckTx\<close> decodes first: bytes that the codec refuses are answered with
  the codec's error, whatever their length. The checks on the decoded transaction follow in this
  order, the first that fails giving the answer and leaving the world as it was: the size of the
  transaction against 32768, the recovery of the sender with the signer chosen by replay
  protection, the sign of the value, the existence of the sender in the mempool state, the gas
  against the block gas limit, the nonce against the sender's, the sender's balance against the
  cost, the gas against the intrinsic gas. A failure to compute the intrinsic gas is a panic.
  When every check passes the answer is OK.
\<close>

theorem CheckTx_order:
  "(decodeTx E bs = Inl de \<longrightarrow>
      CheckTx E w bs = (Return \<lparr>Code = CodeInternal E, Log = de\<rparr>, w)) \<and>
   (decodeTx E bs = Inr tx \<longrightarrow>
     (maxTransactionSize < Size E tx \<longrightarrow>
        CheckTx E w bs = (Return \<lparr>Code = CodeInternal E, Log = ErrOversizedData E\<rparr>, w)) \<and>
     (Size E tx \<le> maxTransactionSize \<longrightarrow>
       (Sender E (signer_for E tx) tx = Inl se \<longrightarrow>
          CheckTx E w bs = (Return \<lparr>Code = CodeInternal E, Log = ErrInvalidSender E\<rparr>, w)) \<and>
       (Sender E (signer_for E tx) tx = Inr sender \<longrightarrow>
         (Value tx < 0 \<longrightarrow>
            CheckTx E w bs = (Return \<lparr>Code = CodeUnknownRequest E, Log = ErrNegativeValue E\<rparr>, w)) \<and>
         (0 \<le> Value tx \<and> Sm w = Some st \<longrightarrow>
           (\<not> Exist st sender \<longrightarrow>
              CheckTx E w bs = (Return \<lparr>Code = CodeUnknownAddress E, Log = ErrInvalidSender E\<rparr>, w)) \<and>
           (Exist st sender \<longrightarrow>
             (GasLimit E (backend (app w)) < Gas tx \<longrightarrow>
                CheckTx E w bs = (Return \<lparr>Code = CodeOutOfGas E, Log = ErrGasLimitReached E\<rparr>, w)) \<and>
             (Gas tx \<le> GasLimit E (backend (app w)) \<longrightarrow>
               (GetNonce st sender \<noteq> Nonce tx \<longrightarrow>
                  CheckTx E w bs =
                    (Return \<lparr>Code = CodeInternal E,
                       Log = ''Nonce not strictly increasing. Expected '' @ fmt_d (GetNonce st sender)
                         @ '' Got '' @ fmt_d (Nonce tx)\<rparr>, w)) \<and>
               (GetNonce st sender = Nonce tx \<longrightarrow>
                 (GetBalance st sender < Cost tx \<longrightarrow>
                    CheckTx E w bs =
                      (Return \<lparr>Code = CodeUnknownRequest E,
                         Log = ''Current balance: '' @ fmt_s (GetBalance st sender)
                           @ '', tx cost: '' @ fmt_s (Cost tx)\<rparr>, w)) \<and>
                 (Cost tx \<le> GetBalance st sender \<longrightarrow>
                   (IntrinsicGas E (Data tx) (To tx = None) True = Inl ge \<longrightarrow>
                      CheckTx E w bs = (Panic ''Intrinsic gas failed!'', w)) \<and>
                   (IntrinsicGas E (Data tx) (To tx = None) True = Inr g \<longrightarrow>
                     (Gas tx < g \<longrightarrow>
                        CheckTx E w bs =
                          (Return \<lparr>Code = CodeUnknownRequest E, Log = ErrIntrinsicGas E\<rparr>, w)) \<and>
                     (g \<le> Gas tx \<longrightarrow>
                        fst (CheckTx E w bs) = Return \<lparr>Code = CodeTypeOK, Log = []\<rparr>))))))))))"
  by (auto simp add: CheckTx_def validateTx_def Let_def)

text \<open>One input for every leaf of the tree.\<close>

theorem CheckTx_order_witness:
  "CheckTx (decoding transfer) (world_of chain0 21979) [0] =
     (Return \<lparr>Code = 1, Log = ''rlp: expected input list for types.txdata''\<rparr>, world_of chain0 21979) \<and>
   CheckTx (decoding (transfer\<lparr>Data := replicate 40000 0\<rparr>)) (world_of chain0 21979) transfer_bytes =
     (Return \<lparr>Code = 1, Log = ''oversized data''\<rparr>, world_of chain0 21979) \<and>
   CheckTx (decoding (transfer\<lparr>Value := - 1\<rparr>)) (world_of chain0 21979) transfer_bytes =
     (Return \<lparr>Code = 6, Log = ''negative value''\<rparr>, world_of chain0 21979) \<and>
   CheckTx (collaborators [(transfer_bytes, transfer)] B) (world_of chain0 21979) transfer_bytes =
     (Return \<lparr>Code = 9, Log = ''invalid sender''\<rparr>, world_of chain0 21979) \<and>
   CheckTx (decoding (transfer\<lparr>Gas := 9000000\<rparr>)) (world_of chain0 21979) transfer_bytes =
     (Return \<lparr>Code = 12, Log = ''gas limit reached''\<rparr>, world_of chain0 21979) \<and>
   CheckTx (decoding (transfer\<lparr>Nonce := 7\<rparr>)) (world_of chain0 21979) transfer_bytes =
     (Return \<lparr>Code = 1, Log = ''Nonce not strictly increasing. Expected 5 Got 7''\<rparr>,
      world_of chain0 21979) \<and>
   CheckTx (decoding transfer) (world_of chain0 1000) transfer_bytes =
     (Return \<lparr>Code = 6, Log = ''Current balance: 1000, tx cost: 21100''\<rparr>, world_of chain0 1000) \<and>
   CheckTx (decoding (transfer\<lparr>Gas := 20000\<rparr>)) (world_of chain0 21979) transfer_bytes =
     (Return \<lparr>Code = 6, Log = ''intrinsic gas too low''\<rparr>, world_of chain0 21979) \<and>
   CheckTx ((decoding transfer)\<lparr>Sender := \<lambda>signer tx. Inl ''invalid transaction v, r, s values''\<rparr>)
       (world_of chain0 21979) transfer_bytes =
     (Return \<lparr>Code = 1, Log = ''invalid sender''\<rparr>, world_of chain0 21979) \<and>
   CheckTx ((decoding transfer)\<lparr>IntrinsicGas := \<lambda>payload creation homestead. Inl ''out of gas''\<rparr>)
       (world_of chain0 21979) transfer_bytes =
     (Panic ''Intrinsic gas failed!'', world_of chain0 21979) \<and>
   fst (CheckTx (decoding transfer) (world_of chain0 21979) transfer_bytes) =
     Return \<lparr>Code = 0, Log = []\<rparr>"
  using CheckTx_order [where E = "decoding transfer" and w = "world_of chain0 21979" and bs = "[0]"
      and de = "''rlp: expected input list for types.txdata''"]
    CheckTx_order [where E = "decoding (transfer\<lparr>Data := replicate 40000 0\<rparr>)"
      and w = "world_of chain0 21979" and bs = transfer_bytes
      and tx = "transfer\<lparr>Data := replicate 40000 0\<rparr>"]
    CheckTx_order [where E = "decoding (transfer\<lparr>Value := - 1\<rparr>)"
      and w = "world_of chain0 21979" and bs = transfer_bytes
      and tx = "transfer\<lparr>Value := - 1\<rparr>" and sender = A]
    CheckTx_order [where E = "collaborators [(transfer_bytes, transfer)] B"
      and w = "world_of chain0 21979" and bs = transfer_bytes
      and tx = transfer and sender = B and st = "accounts 21979"]
    CheckTx_order [where E = "decoding (transfer\<lparr>Gas := 9000000\<rparr>)"
      and w = "world_of chain0 21979" and bs = transfer_bytes
      and tx = "transfer\<lparr>Gas := 9000000\<rparr>" and sender = A and st = "accounts 21979"]
    CheckTx_order [where E = "decoding (transfer\<lparr>Nonce := 7\<rparr>)"
      and w = "world_of chain0 21979" and bs = transfer_bytes
      and tx = "transfer\<lparr>Nonce := 7\<rparr>" and sender = A and st = "accounts 21979"]
    CheckTx_order [where E = "decoding transfer"
      and w = "world_of chain0 1000" and bs = transfer_bytes
      and tx = transfer and sender = A and st = "accounts 1000"]
    CheckTx_order [where E = "decoding (transfer\<lparr>Gas := 20000\<rparr>)"
      and w = "world_of chain0 21979" and bs = transfer_bytes
      and tx = "transfer\<lparr>Gas := 20000\<rparr>" and sender = A and st = "accounts 21979" and g = 21000]
    CheckTx_order [where E = "(decoding transfer)\<lparr>Sender := \<lambda>signer tx. Inl ''invalid transaction v, r, s values''\<rparr>"
      and w = "world_of chain0 21979" and bs = transfer_bytes
      and tx = transfer and se = "''invalid transaction v, r, s values''"]
    CheckTx_order [where E = "(decoding transfer)\<lparr>IntrinsicGas := \<lambda>payload creation homestead. Inl ''out of gas''\<rparr>"
      and w = "world_of chain0 21979" and bs = transfer_bytes
      and tx = transfer and sender = A and st = "accounts 21979" and ge = "''out of gas''"]
    CheckTx_order [where E = "decoding transfer"
      and w = "world_of chain0 21979" and bs = transfer_bytes
      and tx = transfer and sender = A and st = "accounts 21979" and g = 21000]
  by (simp add: on_examples)

text \<open>
  The claim as stated puts the size check on the bytes before the decoding. 32769 bytes that do
  not decode are answered with the codec's error, not with "oversized data".
\<close>

theorem CheckTx_size_counterexample:
  "maxTransactionSize < length (0 # replicate 32768 (0 :: byte)) \<and>
   CheckTx (decoding transfer) (world_of chain0 21979) (0 # replicate 32768 0) =
     (Return \<lparr>Code = 1, Log = ''rlp: expected input list for types.txdata''\<rparr>,
      world_of chain0 21979) \<and>
   ErrOversizedData (decoding transfer) = ''oversized data''"
  by (simp add: on_examples)

subsection \<open>The response codes\<close>

lemma validateTx_log:
  assumes "validateTx E w tx = (Return r, w')" and "error_texts E" and "Code r \<noteq> CodeTypeOK"
  shows "Log r \<noteq> []"
  using assms
  by (auto simp add: validateTx_def error_texts_def Let_def
      split: if_splits sum.splits option.splits)

text \<open>
  C5. \<^verbatim>\<open>CheckTx\<close> answers each failed check with a response, whose code is \<^verbatim>\<open>Internal\<close> for
  bytes that do not decode, for an oversized transaction, for a signature that gives no sender
  and for a wrong nonce; \<^verbatim>\<open>UnknownRequest\<close> for a negative value, for insufficient funds and for
  gas below the intrinsic gas; \<^verbatim>\<open>UnknownAddress\<close> for a sender that does not exist;
  \<^verbatim>\<open>OutOfGas\<close> for gas above the block gas limit; and OK when every check passes. The log is
  the error's text, and for a wrong nonce and for insufficient funds a formatted text that is
  not empty. When the error texts of the libraries and of the codec are not empty, every
  response with a code other than OK has a log that is not empty.
\<close>

theorem CheckTx_codes:
  "(decodeTx E bs = Inl de \<longrightarrow>
      (\<exists>r. fst (CheckTx E w bs) = Return r \<and> Code r = CodeInternal E \<and> Log r = de)) \<and>
   (decodeTx E bs = Inr tx \<longrightarrow>
     (maxTransactionSize < Size E tx \<longrightarrow>
        (\<exists>r. fst (CheckTx E w bs) = Return r \<and> Code r = CodeInternal E \<and>
           Log r = ErrOversizedData E)) \<and>
     (Size E tx \<le> maxTransactionSize \<longrightarrow>
       (Sender E (signer_for E tx) tx = Inl se \<longrightarrow>
          (\<exists>r. fst (CheckTx E w bs) = Return r \<and> Code r = CodeInternal E \<and>
             Log r = ErrInvalidSender E)) \<and>
       (Sender E (signer_for E tx) tx = Inr sender \<longrightarrow>
         (Value tx < 0 \<longrightarrow>
            (\<exists>r. fst (CheckTx E w bs) = Return r \<and> Code r = CodeUnknownRequest E \<and>
               Log r = ErrNegativeValue E)) \<and>
         (0 \<le> Value tx \<and> Sm w = Some st \<longrightarrow>
           (\<not> Exist st sender \<longrightarrow>
              (\<exists>r. fst (CheckTx E w bs) = Return r \<and> Code r = CodeUnknownAddress E \<and>
                 Log r = ErrInvalidSender E)) \<and>
           (Exist st sender \<longrightarrow>
             (GasLimit E (backend (app w)) < Gas tx \<longrightarrow>
                (\<exists>r. fst (CheckTx E w bs) = Return r \<and> Code r = CodeOutOfGas E \<and>
                   Log r = ErrGasLimitReached E)) \<and>
             (Gas tx \<le> GasLimit E (backend (app w)) \<longrightarrow>
               (GetNonce st sender \<noteq> Nonce tx \<longrightarrow>
                  (\<exists>r. fst (CheckTx E w bs) = Return r \<and> Code r = CodeInternal E \<and>
                     Log r \<noteq> [])) \<and>
               (GetNonce st sender = Nonce tx \<longrightarrow>
                 (GetBalance st sender < Cost tx \<longrightarrow>
                    (\<exists>r. fst (CheckTx E w bs) = Return r \<and> Code r = CodeUnknownRequest E \<and>
                       Log r \<noteq> [])) \<and>
                 (Cost tx \<le> GetBalance st sender \<and>
                  IntrinsicGas E (Data tx) (To tx = None) True = Inr g \<longrightarrow>
                   (Gas tx < g \<longrightarrow>
                      (\<exists>r. fst (CheckTx E w bs) = Return r \<and> Code r = CodeUnknownRequest E \<and>
                         Log r = ErrIntrinsicGas E)) \<and>
                   (g \<le> Gas tx \<longrightarrow>
                      (\<exists>r. fst (CheckTx E w bs) = Return r \<and> Code r = CodeTypeOK)))))))))) \<and>
   (fst (CheckTx E w bs) = Return r \<and> error_texts E \<and>
    (\<forall>x e. decodeTx E x = Inl e \<longrightarrow> e \<noteq> []) \<and> Code r \<noteq> CodeTypeOK \<longrightarrow>
      Log r \<noteq> [])"
proof -
  have "Log r \<noteq> []"
    if "fst (CheckTx E w bs) = Return r" "error_texts E"
      "\<forall>x e. decodeTx E x = Inl e \<longrightarrow> e \<noteq> []" "Code r \<noteq> CodeTypeOK"
  proof (cases "decodeTx E bs")
    case (Inl e)
    with that(1,3) show ?thesis
      by (auto simp add: CheckTx_malformed)
  next
    case (Inr t)
    with that(1) have "validateTx E w t = (Return r, snd (validateTx E w t))"
      by (simp add: CheckTx_decoded prod_eq_iff)
    from this that(2,4) show ?thesis
      by (rule validateTx_log)
  qed
  moreover have "decodeTx E bs = Inl de \<longrightarrow>
      (\<exists>r. fst (CheckTx E w bs) = Return r \<and> Code r = CodeInternal E \<and> Log r = de)"
    by (simp add: CheckTx_malformed)
  moreover have "decodeTx E bs = Inr tx \<longrightarrow>
     (maxTransactionSize < Size E tx \<longrightarrow>
        (\<exists>r. fst (CheckTx E w bs) = Return r \<and> Code r = CodeInternal E \<and>
           Log r = ErrOversizedData E)) \<and>
     (Size E tx \<le> maxTransactionSize \<longrightarrow>
       (Sender E (signer_for E tx) tx = Inl se \<longrightarrow>
          (\<exists>r. fst (CheckTx E w bs) = Return r \<and> Code r = CodeInternal E \<and>
             Log r = ErrInvalidSender E)) \<and>
       (Sender E (signer_for E tx) tx = Inr sender \<longrightarrow>
         (Value tx < 0 \<longrightarrow>
            (\<exists>r. fst (CheckTx E w bs) = Return r \<and> Code r = CodeUnknownRequest E \<and>
               Log r = ErrNegativeValue E)) \<and>
         (0 \<le> Value tx \<and> Sm w = Some st \<longrightarrow>
           (\<not> Exist st sender \<longrightarrow>
              (\<exists>r. fst (CheckTx E w bs) = Return r \<and> Code r = CodeUnknownAddress E \<and>
                 Log r = ErrInvalidSender E)) \<and>
           (Exist st sender \<longrightarrow>
             (GasLimit E (backend (app w)) < Gas tx \<longrightarrow>
                (\<exists>r. fst (CheckTx E w bs) = Return r \<and> Code r = CodeOutOfGas E \<and>
                   Log r = ErrGasLimitReached E)) \<and>
             (Gas tx \<le> GasLimit E (backend (app w)) \<longrightarrow>
               (GetNonce st sender \<noteq> Nonce tx \<longrightarrow>
                  (\<exists>r. fst (CheckTx E w bs) = Return r \<and> Code r = CodeInternal E \<and>
                     Log r \<noteq> [])) \<and>
               (GetNonce st sender = Nonce tx \<longrightarrow>
                 (GetBalance st sender < Cost tx \<longrightarrow>
                    (\<exists>r. fst (CheckTx E w bs) = Return r \<and> Code r = CodeUnknownRequest E \<and>
                       Log r \<noteq> [])) \<and>
                 (Cost tx \<le> GetBalance st sender \<and>
                  IntrinsicGas E (Data tx) (To tx = None) True = Inr g \<longrightarrow>
                   (Gas tx < g \<longrightarrow>
                      (\<exists>r. fst (CheckTx E w bs) = Return r \<and> Code r = CodeUnknownRequest E \<and>
                         Log r = ErrIntrinsicGas E)) \<and>
                   (g \<le> Gas tx \<longrightarrow>
                      (\<exists>r. fst (CheckTx E w bs) = Return r \<and> Code r = CodeTypeOK)))))))))"
    by (auto simp add: CheckTx_def validateTx_def Let_def)
  ultimately show ?thesis
    by blast
qed

text \<open>The definitions that evaluate the hypotheses on the examples.\<close>

lemmas example_inputs = decoding_def collaborators_def world_of_def chain0_def accounts_def
  transfer_def transfer_bytes_def A_def B_def maxTransactionSize_def homestead_gas_def Exist_def
  GetNonce_def GetBalance_def Cost_def deref_def CodeTypeOK_def

text \<open>
  One input for each of the nine kinds and one that is admitted, and the oversized transaction
  for the log.
\<close>

theorem CheckTx_codes_witness:
  "(\<exists>r. fst (CheckTx (decoding transfer) (world_of chain0 21979) [0]) = Return r \<and> Code r = 1 \<and> Log r = ''rlp: expected input list for types.txdata'') \<and>
   (\<exists>r. fst (CheckTx (decoding (transfer\<lparr>Data := replicate 40000 0\<rparr>)) (world_of chain0 21979) transfer_bytes) = Return r \<and> Code r = 1 \<and> Log r = ''oversized data'') \<and>
   (\<exists>r. fst (CheckTx ((decoding transfer)\<lparr>Sender := \<lambda>signer tx. Inl ''invalid transaction v, r, s values''\<rparr>) (world_of chain0 21979) transfer_bytes) = Return r \<and> Code r = 1 \<and> Log r = ''invalid sender'') \<and>
   (\<exists>r. fst (CheckTx (decoding (transfer\<lparr>Value := - 1\<rparr>)) (world_of chain0 21979) transfer_bytes) = Return r \<and> Code r = 6 \<and> Log r = ''negative value'') \<and>
   (\<exists>r. fst (CheckTx (collaborators [(transfer_bytes, transfer)] B) (world_of chain0 21979) transfer_bytes) = Return r \<and> Code r = 9 \<and> Log r = ''invalid sender'') \<and>
   (\<exists>r. fst (CheckTx (decoding (transfer\<lparr>Gas := 9000000\<rparr>)) (world_of chain0 21979) transfer_bytes) = Return r \<and> Code r = 12 \<and> Log r = ''gas limit reached'') \<and>
   (\<exists>r. fst (CheckTx (decoding (transfer\<lparr>Nonce := 7\<rparr>)) (world_of chain0 21979) transfer_bytes) = Return r \<and> Code r = 1 \<and> Log r \<noteq> []) \<and>
   (\<exists>r. fst (CheckTx (decoding transfer) (world_of chain0 1000) transfer_bytes) = Return r \<and> Code r = 6 \<and> Log r \<noteq> []) \<and>
   (\<exists>r. fst (CheckTx (decoding (transfer\<lparr>Gas := 20000\<rparr>)) (world_of chain0 21979) transfer_bytes) = Return r \<and> Code r = 6 \<and> Log r = ''intrinsic gas too low'') \<and>
   (\<exists>r. fst (CheckTx (decoding transfer) (world_of chain0 21979) transfer_bytes) = Return r \<and> Code r = 0) \<and>
   fst (CheckTx (decoding (transfer\<lparr>Data := replicate 40000 0\<rparr>)) (world_of chain0 21979) transfer_bytes) =
     Return \<lparr>Code = 1, Log = ''oversized data''\<rparr> \<and>
   error_texts (decoding (transfer\<lparr>Data := replicate 40000 0\<rparr>)) \<and>
   Code \<lparr>Code = 1, Log = ''oversized data''\<rparr> \<noteq> CodeTypeOK \<and>
   Log \<lparr>Code = 1, Log = ''oversized data''\<rparr> \<noteq> []"
proof -
  have k1: "(\<exists>r. fst (CheckTx (decoding transfer) (world_of chain0 21979) [0]) = Return r \<and> Code r = 1 \<and> Log r = ''rlp: expected input list for types.txdata'')"
    using CheckTx_codes [where E = "decoding transfer" and w = "world_of chain0 21979" and bs = "[0]"
        and de = "''rlp: expected input list for types.txdata''" and tx = "transfer"
        and se = "''invalid transaction v, r, s values''" and sender = A and st = "accounts 21979"
        and g = 21000 and r = "\<lparr>Code = 0, Log = []\<rparr>"]
    by (simp add: example_inputs)
  have k2: "(\<exists>r. fst (CheckTx (decoding (transfer\<lparr>Data := replicate 40000 0\<rparr>)) (world_of chain0 21979) transfer_bytes) = Return r \<and> Code r = 1 \<and> Log r = ''oversized data'')"
    using CheckTx_codes [where E = "decoding (transfer\<lparr>Data := replicate 40000 0\<rparr>)" and w = "world_of chain0 21979" and bs = "transfer_bytes"
        and de = "''rlp: expected input list for types.txdata''" and tx = "transfer\<lparr>Data := replicate 40000 0\<rparr>"
        and se = "''invalid transaction v, r, s values''" and sender = A and st = "accounts 21979"
        and g = 21000 and r = "\<lparr>Code = 0, Log = []\<rparr>"]
    by (simp add: example_inputs)
  have k3: "(\<exists>r. fst (CheckTx ((decoding transfer)\<lparr>Sender := \<lambda>signer tx. Inl ''invalid transaction v, r, s values''\<rparr>) (world_of chain0 21979) transfer_bytes) = Return r \<and> Code r = 1 \<and> Log r = ''invalid sender'')"
    using CheckTx_codes [where E = "(decoding transfer)\<lparr>Sender := \<lambda>signer tx. Inl ''invalid transaction v, r, s values''\<rparr>" and w = "world_of chain0 21979" and bs = "transfer_bytes"
        and de = "''rlp: expected input list for types.txdata''" and tx = "transfer"
        and se = "''invalid transaction v, r, s values''" and sender = A and st = "accounts 21979"
        and g = 21000 and r = "\<lparr>Code = 0, Log = []\<rparr>"]
    by (simp add: example_inputs)
  have k4: "(\<exists>r. fst (CheckTx (decoding (transfer\<lparr>Value := - 1\<rparr>)) (world_of chain0 21979) transfer_bytes) = Return r \<and> Code r = 6 \<and> Log r = ''negative value'')"
    using CheckTx_codes [where E = "decoding (transfer\<lparr>Value := - 1\<rparr>)" and w = "world_of chain0 21979" and bs = "transfer_bytes"
        and de = "''rlp: expected input list for types.txdata''" and tx = "transfer\<lparr>Value := - 1\<rparr>"
        and se = "''invalid transaction v, r, s values''" and sender = A and st = "accounts 21979"
        and g = 21000 and r = "\<lparr>Code = 0, Log = []\<rparr>"]
    by (simp add: example_inputs)
  have k5: "(\<exists>r. fst (CheckTx (collaborators [(transfer_bytes, transfer)] B) (world_of chain0 21979) transfer_bytes) = Return r \<and> Code r = 9 \<and> Log r = ''invalid sender'')"
    using CheckTx_codes [where E = "collaborators [(transfer_bytes, transfer)] B" and w = "world_of chain0 21979" and bs = "transfer_bytes"
        and de = "''rlp: expected input list for types.txdata''" and tx = "transfer"
        and se = "''invalid transaction v, r, s values''" and sender = B and st = "accounts 21979"
        and g = 21000 and r = "\<lparr>Code = 0, Log = []\<rparr>"]
    by (simp add: example_inputs)
  have k6: "(\<exists>r. fst (CheckTx (decoding (transfer\<lparr>Gas := 9000000\<rparr>)) (world_of chain0 21979) transfer_bytes) = Return r \<and> Code r = 12 \<and> Log r = ''gas limit reached'')"
    using CheckTx_codes [where E = "decoding (transfer\<lparr>Gas := 9000000\<rparr>)" and w = "world_of chain0 21979" and bs = "transfer_bytes"
        and de = "''rlp: expected input list for types.txdata''" and tx = "transfer\<lparr>Gas := 9000000\<rparr>"
        and se = "''invalid transaction v, r, s values''" and sender = A and st = "accounts 21979"
        and g = 21000 and r = "\<lparr>Code = 0, Log = []\<rparr>"]
    by (simp add: example_inputs)
  have k7: "(\<exists>r. fst (CheckTx (decoding (transfer\<lparr>Nonce := 7\<rparr>)) (world_of chain0 21979) transfer_bytes) = Return r \<and> Code r = 1 \<and> Log r \<noteq> [])"
    using CheckTx_codes [where E = "decoding (transfer\<lparr>Nonce := 7\<rparr>)" and w = "world_of chain0 21979" and bs = "transfer_bytes"
        and de = "''rlp: expected input list for types.txdata''" and tx = "transfer\<lparr>Nonce := 7\<rparr>"
        and se = "''invalid transaction v, r, s values''" and sender = A and st = "accounts 21979"
        and g = 21000 and r = "\<lparr>Code = 0, Log = []\<rparr>"]
    by (simp add: example_inputs)
  have k8: "(\<exists>r. fst (CheckTx (decoding transfer) (world_of chain0 1000) transfer_bytes) = Return r \<and> Code r = 6 \<and> Log r \<noteq> [])"
    using CheckTx_codes [where E = "decoding transfer" and w = "world_of chain0 1000" and bs = "transfer_bytes"
        and de = "''rlp: expected input list for types.txdata''" and tx = "transfer"
        and se = "''invalid transaction v, r, s values''" and sender = A and st = "accounts 1000"
        and g = 21000 and r = "\<lparr>Code = 0, Log = []\<rparr>"]
    by (simp add: example_inputs)
  have k9: "(\<exists>r. fst (CheckTx (decoding (transfer\<lparr>Gas := 20000\<rparr>)) (world_of chain0 21979) transfer_bytes) = Return r \<and> Code r = 6 \<and> Log r = ''intrinsic gas too low'')"
    using CheckTx_codes [where E = "decoding (transfer\<lparr>Gas := 20000\<rparr>)" and w = "world_of chain0 21979" and bs = "transfer_bytes"
        and de = "''rlp: expected input list for types.txdata''" and tx = "transfer\<lparr>Gas := 20000\<rparr>"
        and se = "''invalid transaction v, r, s values''" and sender = A and st = "accounts 21979"
        and g = 21000 and r = "\<lparr>Code = 0, Log = []\<rparr>"]
    by (simp add: example_inputs)
  have k10: "(\<exists>r. fst (CheckTx (decoding transfer) (world_of chain0 21979) transfer_bytes) = Return r \<and> Code r = 0)"
    using CheckTx_codes [where E = "decoding transfer" and w = "world_of chain0 21979" and bs = "transfer_bytes"
        and de = "''rlp: expected input list for types.txdata''" and tx = "transfer"
        and se = "''invalid transaction v, r, s values''" and sender = A and st = "accounts 21979"
        and g = 21000 and r = "\<lparr>Code = 0, Log = []\<rparr>"]
    by (simp add: example_inputs)
  have e: "fst (CheckTx (decoding (transfer\<lparr>Data := replicate 40000 0\<rparr>)) (world_of chain0 21979) transfer_bytes) =
      Return \<lparr>Code = 1, Log = ''oversized data''\<rparr>"
    by (simp add: on_examples)
  have t: "error_texts (decoding (transfer\<lparr>Data := replicate 40000 0\<rparr>))"
    by (simp add: error_texts_def decoding_def collaborators_def)
  have d: "\<forall>x e. decodeTx (decoding (transfer\<lparr>Data := replicate 40000 0\<rparr>)) x = Inl e \<longrightarrow> e \<noteq> []"
    by (auto simp add: decoding_def collaborators_def split: if_splits)
  have c: "Code \<lparr>Code = 1, Log = ''oversized data''\<rparr> \<noteq> CodeTypeOK"
    by (simp add: CodeTypeOK_def)
  from CheckTx_codes [where E = "decoding (transfer\<lparr>Data := replicate 40000 0\<rparr>)" and w = "world_of chain0 21979"
      and bs = transfer_bytes and r = "\<lparr>Code = 1, Log = ''oversized data''\<rparr>",
      THEN conjunct2, THEN conjunct2] e t d c
  have l: "Log \<lparr>Code = 1, Log = ''oversized data''\<rparr> \<noteq> []"
    by blast
  from k1 k2 k3 k4 k5 k6 k7 k8 k9 k10 e t c l show ?thesis
    by (intro conjI)
qed

section \<open>Commit rebuilds the mempool state\<close>

text \<open>\<^verbatim>\<open>CheckTx\<close> writes to no object but the one \<^verbatim>\<open>checkTxState\<close> points to.\<close>

lemma validateTx_frame:
  assumes "p \<noteq> checkTxState (app w)"
  shows "deref (heap (snd (validateTx E w tx))) p = deref (heap w) p"
proof (cases "snd (validateTx E w tx) = w")
  case True
  then show ?thesis
    by simp
next
  case False
  have "validateTx E w tx = (fst (validateTx E w tx), snd (validateTx E w tx))"
    by simp
  from this False obtain sender st where
    "snd (validateTx E w tx) = w\<lparr>heap := (heap w)[checkTxState (app w) := admit st sender tx]\<rparr>"
    by (rule validateTx_writes)
  with assms show ?thesis
    by (simp add: deref_def)
qed

lemma CheckTx_frame:
  assumes "p \<noteq> checkTxState (app w)"
  shows "deref (heap (snd (CheckTx E w bs))) p = deref (heap w) p"
proof (cases "decodeTx E bs")
  case (Inl de)
  then show ?thesis
    by (simp add: CheckTx_malformed)
next
  case (Inr tx)
  with assms show ?thesis
    by (simp add: CheckTx_decoded validateTx_frame)
qed

text \<open>
  C7. Let \<^verbatim>\<open>Commit\<close> return, the backend having given the block hash and then the pointer
  \<open>state\<close> to the committed state. The response carries that block hash, the stored
  \<^verbatim>\<open>BeginBlock\<close> request is cleared, and \<^verbatim>\<open>checkTxState\<close> points to an object that has the
  contents of the committed state and is not among the objects that existed before the copy.
  What \<^verbatim>\<open>CheckTx\<close> writes afterwards does not reach the committed state, and a write to the
  committed state does not reach the mempool state.
\<close>

theorem Commit_rebuilds_mempool:
  assumes "Commit E w = (Return r, w')"
    and "backend_Commit E (backend (app w)) (Receiver E (strategy (app w))) = ((blockHash, err), b)"
    and "getCurrentState E b (heap w) = Inr (state, h)"
  shows "Commit_Data r = blockHash \<and>
         requestBeginBlock (app w') = None \<and>
         Sm w' \<noteq> None \<and>
         Sm w' = deref (heap w') state \<and>
         deref (heap w') state = deref h state \<and>
         state < length h \<and>
         checkTxState (app w') = length h \<and>
         (\<forall>bs. deref (heap (snd (CheckTx E w' bs))) state = deref (heap w') state) \<and>
         (\<forall>x. deref ((heap w')[state := x]) (checkTxState (app w')) = Sm w')"
proof -
  from assms obtain st where st: "deref h state = Some st"
    and w': "w' = \<lparr>app = (app w)\<lparr>backend := b, checkTxState := length h, requestBeginBlock := None\<rparr>,
                   heap = h @ [st]\<rparr>"
    and r: "r = \<lparr>Commit_Data = blockHash\<rparr>"
    by (auto simp add: Commit_def Copy_def Let_def split: option.splits)
  from st have lt: "state < length h" and v: "h ! state = st"
    by (simp_all add: deref_def split: if_splits)
  have p: "checkTxState (app w') = length h" and hp: "heap w' = h @ [st]"
    by (simp_all add: w')
  have sm: "Sm w' = Some st"
    by (simp add: w' deref_def)
  have sc: "deref (heap w') state = Some st"
    using lt v by (simp add: hp deref_def nth_append)
  have f: "deref (heap (snd (CheckTx E w' bs))) state = deref (heap w') state" for bs
    using lt by (intro CheckTx_frame) (simp add: p)
  have g: "deref ((heap w')[state := x]) (checkTxState (app w')) = Sm w'" for x
    using lt by (simp add: p hp deref_def nth_append list_update_append)
  from r w' sm sc st lt p f g show ?thesis
    by simp
qed

text \<open>
  The transfer is admitted, which takes the mempool nonce of \<open>A\<close> to 6 while the committed
  state keeps 5; the commit that follows gives a mempool state with nonce 5 in a new object.
\<close>

theorem Commit_rebuilds_mempool_witness:
  "Sm_nonce (snd (CheckTx (decoding transfer) (world_of chain0 21979) transfer_bytes)) A = Some 6 \<and>
   fst (Commit (decoding transfer)
     (snd (CheckTx (decoding transfer) (world_of chain0 21979) transfer_bytes))) =
     Return \<lparr>Commit_Data = [1, 1]\<rparr> \<and>
   Sm_nonce (snd (Commit (decoding transfer)
     (snd (CheckTx (decoding transfer) (world_of chain0 21979) transfer_bytes)))) A = Some 5 \<and>
   checkTxState (app (snd (Commit (decoding transfer)
     (snd (CheckTx (decoding transfer) (world_of chain0 21979) transfer_bytes))))) = 2 \<and>
   requestBeginBlock (app (snd (Commit (decoding transfer)
     (snd (CheckTx (decoding transfer) (world_of chain0 21979) transfer_bytes))))) = None"
proof -
  have w1: "snd (CheckTx (decoding transfer) (world_of chain0 21979) transfer_bytes) =
      (world_of chain0 21979)\<lparr>heap := [accounts 21979, admit (accounts 21979) A transfer]\<rparr>"
    by (simp add: CheckTx_def validateTx_def decoding_def collaborators_def world_of_def chain0_def
        transfer_def transfer_bytes_def maxTransactionSize_def homestead_gas_def accounts_def
        Exist_def GetNonce_def GetBalance_def Cost_def deref_def admit_def Let_def)
  have n: "Sm_nonce ((world_of chain0 21979)
      \<lparr>heap := [accounts 21979, admit (accounts 21979) A transfer]\<rparr>) A = Some 6"
    by (simp add: Sm_nonce_def world_of_def deref_def GetNonce_admit transfer_def)
  have c: "Commit (decoding transfer)
      ((world_of chain0 21979)\<lparr>heap := [accounts 21979, admit (accounts 21979) A transfer]\<rparr>) =
      (Return \<lparr>Commit_Data = [1, 1]\<rparr>,
       \<lparr>app = \<lparr>backend = chain0\<lparr>chain_head := next_block genesis\<rparr>, checkTxState = 2,
               strategy = [], requestBeginBlock = None\<rparr>,
        heap = [accounts 21979, admit (accounts 21979) A transfer, accounts 21979]\<rparr>)"
    by (simp add: Commit_def Copy_def decoding_def collaborators_def world_of_def chain0_def
        genesis_def next_block_def deref_def)
  have k: "backend_Commit (decoding transfer)
      (backend (app ((world_of chain0 21979)
        \<lparr>heap := [accounts 21979, admit (accounts 21979) A transfer]\<rparr>)))
      (Receiver (decoding transfer) (strategy (app ((world_of chain0 21979)
        \<lparr>heap := [accounts 21979, admit (accounts 21979) A transfer]\<rparr>)))) =
      (([1, 1], None), chain0\<lparr>chain_head := next_block genesis\<rparr>)"
    by (simp add: decoding_def collaborators_def world_of_def chain0_def genesis_def next_block_def)
  have g: "getCurrentState (decoding transfer) (chain0\<lparr>chain_head := next_block genesis\<rparr>)
      (heap ((world_of chain0 21979)
        \<lparr>heap := [accounts 21979, admit (accounts 21979) A transfer]\<rparr>)) =
      Inr (0, [accounts 21979, admit (accounts 21979) A transfer])"
    by (simp add: decoding_def collaborators_def world_of_def chain0_def)
  from Commit_rebuilds_mempool [OF c k g]
  have "Sm \<lparr>app = \<lparr>backend = chain0\<lparr>chain_head := next_block genesis\<rparr>, checkTxState = 2,
               strategy = [], requestBeginBlock = None\<rparr>,
        heap = [accounts 21979, admit (accounts 21979) A transfer, accounts 21979]\<rparr> =
      deref [accounts 21979, admit (accounts 21979) A transfer] 0"
    by simp
  then have "Sm_nonce \<lparr>app = \<lparr>backend = chain0\<lparr>chain_head := next_block genesis\<rparr>, checkTxState = 2,
               strategy = [], requestBeginBlock = None\<rparr>,
        heap = [accounts 21979, admit (accounts 21979) A transfer, accounts 21979]\<rparr> A = Some 5"
    by (simp add: Sm_nonce_def deref_def accounts_def GetNonce_def)
  with w1 n c show ?thesis
    by simp
qed

section \<open>DeliverTx\<close>

text \<open>
  C9. \<^verbatim>\<open>DeliverTx\<close> always returns a response. For bytes that do not decode the response has
  the code \<^verbatim>\<open>Internal\<close> and the codec's error as its log, and nothing changes. For a
  transaction that the backend answers with an error code, the response is the backend's. For a
  transaction that the backend accepts, the response has the code OK, which is 0, and the
  transaction is collected. The backend and \<^verbatim>\<open>CollectTx\<close> are taken to return.
\<close>

theorem DeliverTx_reports:
  "(decodeTx E bs = Inl de \<longrightarrow>
      DeliverTx E w bs = (Return \<lparr>DeliverTx_Code = CodeInternal E, DeliverTx_Log = de\<rparr>, w)) \<and>
   (decodeTx E bs = Inr tx \<and> backend_DeliverTx E (backend (app w)) tx = (res, b) \<longrightarrow>
     (IsErr res \<longrightarrow>
        DeliverTx E w bs = (Return res, w\<lparr>app := (app w)\<lparr>backend := b\<rparr>\<rparr>)) \<and>
     (\<not> IsErr res \<longrightarrow>
        DeliverTx E w bs =
          (Return \<lparr>DeliverTx_Code = 0, DeliverTx_Log = []\<rparr>,
           w\<lparr>app := (app w)\<lparr>backend := b, strategy := CollectTx E (strategy (app w)) tx\<rparr>\<rparr>))) \<and>
   (\<exists>r. fst (DeliverTx E w bs) = Return r)"
  by (cases "decodeTx E bs")
    (auto simp add: DeliverTx_def CodeTypeOK_def Let_def split: prod.splits)

theorem DeliverTx_reports_witness:
  "DeliverTx (decoding transfer) (world_of chain0 21979) [0] =
     (Return \<lparr>DeliverTx_Code = 1, DeliverTx_Log = ''rlp: expected input list for types.txdata''\<rparr>,
      world_of chain0 21979) \<and>
   DeliverTx (decoding (transfer\<lparr>Gas := 20000\<rparr>)) (world_of chain0 21979) transfer_bytes =
     (Return \<lparr>DeliverTx_Code = 1, DeliverTx_Log = ''intrinsic gas too low''\<rparr>,
      world_of chain0 21979) \<and>
   fst (DeliverTx (decoding transfer) (world_of chain0 21979) transfer_bytes) =
     Return \<lparr>DeliverTx_Code = 0, DeliverTx_Log = []\<rparr> \<and>
   strategy (app (snd (DeliverTx (decoding transfer) (world_of chain0 21979) transfer_bytes))) =
     [transfer]"
  using DeliverTx_reports [where E = "decoding transfer" and w = "world_of chain0 21979"
      and bs = "[0]" and de = "''rlp: expected input list for types.txdata''"]
    DeliverTx_reports [where E = "decoding (transfer\<lparr>Gas := 20000\<rparr>)"
      and w = "world_of chain0 21979" and bs = transfer_bytes and tx = "transfer\<lparr>Gas := 20000\<rparr>"
      and res = "\<lparr>DeliverTx_Code = 1, DeliverTx_Log = ''intrinsic gas too low''\<rparr>" and b = chain0]
    DeliverTx_reports [where E = "decoding transfer"
      and w = "world_of chain0 21979" and bs = transfer_bytes and tx = transfer
      and res = "\<lparr>DeliverTx_Code = 0, DeliverTx_Log = []\<rparr>" and b = chain0]
  by (simp add: decoding_def collaborators_def world_of_def chain0_def transfer_def
      transfer_bytes_def IsErr_def CodeTypeOK_def)

end
